theory Spec2Isabelle
  imports Main "HOL-Library.Word"
begin

section \<open>Values exchanged by the streaming context\<close>

text \<open>
  The module under study is \<^verbatim>\<open>frontend/src/contexts/WebRTCContext.js\<close>: a reducer
  (\<^verbatim>\<open>webrtcReducer\<close>) over the session state, and a provider whose callbacks drive a
  signalling socket and a registry of peer connections.

  A JavaScript string value is a list of UTF-16 code units. Identifiers that the code
  only compares or uses as keys (envelope types, participant and stream identifiers,
  property names) are HOL strings, a \<open>char\<close> standing for one code unit below 256;
  \<open>ascii\<close> turns such a literal into a string value. Payloads whose shape the code
  never inspects (session descriptions, candidates, chat messages) are kept as untyped
  JSON values.
\<close>

type_synonym js_string = "16 word list"

definition ascii :: "string \<Rightarrow> js_string" where
  "ascii s = map of_char s"

datatype json =
    JUndefined
  | JNull
  | JBool bool
  | JNumber int
  | JString js_string
  | JObject "(string \<times> json) list"

text \<open>A \<^verbatim>\<open>MediaStream\<close>: its identifier and the identifiers of its tracks.\<close>

record media_stream =
  media_id :: string
  getTracks :: "string list"

section \<open>The session state store\<close>

text \<open>The object \<^verbatim>\<open>initialState\<close> gives the fields; \<open>None\<close> stands for \<^verbatim>\<open>null\<close>.\<close>

record state =
  localStream :: "media_stream option"
  remoteStreams :: "string \<rightharpoonup> media_stream option"
  isStreaming :: bool
  isViewing :: bool
  connectionState :: string
  chatMessages :: "json list"
  streamInfo :: json
  viewers :: "string list"
  error :: json
  isConnected :: bool
  currentStreamId :: "string option"

definition initialState :: state where
  "initialState =
     \<lparr> localStream = None,
       remoteStreams = Map.empty,
       isStreaming = False,
       isViewing = False,
       connectionState = ''disconnected'',
       chatMessages = [],
       streamInfo = JNull,
       viewers = [],
       error = JNull,
       isConnected = False,
       currentStreamId = None \<rparr>"

text \<open>
  The actions the reducer switches on. \<open>UNKNOWN\<close> stands for every action whose
  \<^verbatim>\<open>type\<close> is none of the listed strings (the \<^verbatim>\<open>default\<close> branch).
  A remote stream is optional because \<^verbatim>\<open>const [remoteStream] = event.streams\<close> yields
  \<^verbatim>\<open>undefined\<close> on an empty array.
\<close>

datatype action =
    SET_LOCAL_STREAM "media_stream option"
  | ADD_REMOTE_STREAM string "media_stream option"
  | REMOVE_REMOTE_STREAM string
  | SET_STREAMING bool
  | SET_VIEWING bool
  | SET_CONNECTION_STATE string
  | ADD_CHAT_MESSAGE json
  | SET_STREAM_INFO json
  | UPDATE_VIEWERS "string list"
  | SET_ERROR json
  | SET_CONNECTED bool
  | SET_CURRENT_STREAM "string option"
  | CLEAR_CHAT
  | RESET_STATE
  | UNKNOWN string

text \<open>
  \<^verbatim>\<open>Array.prototype.slice(start)\<close> with one argument: a negative \<open>start\<close> counts from
  the end and is clamped at 0, a positive one is clamped at the length.
\<close>

definition slice :: "int \<Rightarrow> 'a list \<Rightarrow> 'a list" where
  "slice start xs =
     (let len = int (length xs);
          k = (if start < 0 then max (len + start) 0 else min start len)
      in drop (nat k) xs)"

fun webrtcReducer :: "state \<Rightarrow> action \<Rightarrow> state" where
  "webrtcReducer s (SET_LOCAL_STREAM payload) = s\<lparr>localStream := payload\<rparr>"
| "webrtcReducer s (ADD_REMOTE_STREAM userId stream) =
     s\<lparr>remoteStreams := (remoteStreams s)(userId \<mapsto> stream)\<rparr>"
| "webrtcReducer s (REMOVE_REMOTE_STREAM userId) =
     s\<lparr>remoteStreams := (remoteStreams s)(userId := None)\<rparr>"
| "webrtcReducer s (SET_STREAMING payload) = s\<lparr>isStreaming := payload\<rparr>"
| "webrtcReducer s (SET_VIEWING payload) = s\<lparr>isViewing := payload\<rparr>"
| "webrtcReducer s (SET_CONNECTION_STATE payload) = s\<lparr>connectionState := payload\<rparr>"
| "webrtcReducer s (ADD_CHAT_MESSAGE message) =
     s\<lparr>chatMessages := slice (- 100) (chatMessages s @ [message])\<rparr>"
| "webrtcReducer s (SET_STREAM_INFO payload) = s\<lparr>streamInfo := payload\<rparr>"
| "webrtcReducer s (UPDATE_VIEWERS payload) = s\<lparr>viewers := payload\<rparr>"
| "webrtcReducer s (SET_ERROR payload) = s\<lparr>error := payload\<rparr>"
| "webrtcReducer s (SET_CONNECTED payload) = s\<lparr>isConnected := payload\<rparr>"
| "webrtcReducer s (SET_CURRENT_STREAM payload) = s\<lparr>currentStreamId := payload\<rparr>"
| "webrtcReducer s CLEAR_CHAT = s\<lparr>chatMessages := []\<rparr>"
| "webrtcReducer s RESET_STATE = initialState\<lparr>localStream := localStream s\<rparr>"
| "webrtcReducer s (UNKNOWN t) = s"

text \<open>Several \<^verbatim>\<open>dispatch\<close> calls in a row are applied to the store in order.\<close>

definition dispatchAll :: "state \<Rightarrow> action list \<Rightarrow> state" where
  "dispatchAll s acts = foldl webrtcReducer s acts"


section \<open>Browser objects and the provider's refs\<close>

datatype js_error = SyntaxError | TypeError | DOMException string

text \<open>
  Property access \<^verbatim>\<open>v.k\<close>: a \<^verbatim>\<open>TypeError\<close> on \<^verbatim>\<open>undefined\<close> and \<^verbatim>\<open>null\<close>,
  \<^verbatim>\<open>undefined\<close> for a missing property.
\<close>

fun get_prop :: "json \<Rightarrow> string \<Rightarrow> js_error + json" where
  "get_prop JUndefined k = Inl TypeError"
| "get_prop JNull k = Inl TypeError"
| "get_prop (JObject kvs) k = Inr (case map_of kvs k of None \<Rightarrow> JUndefined | Some v \<Rightarrow> v)"
| "get_prop v k = Inr JUndefined"

text \<open>
  A participant identifier as it occurs in an envelope: absent (\<^verbatim>\<open>undefined\<close>),
  \<^verbatim>\<open>null\<close>, or a string.
\<close>

datatype participant = NoId | NullId | Id string

text \<open>
  The wire unit. The same shape is received (after \<^verbatim>\<open>JSON.parse\<close>) and sent (before
  \<^verbatim>\<open>JSON.stringify\<close>, which omits a property whose value is \<^verbatim>\<open>undefined\<close>);
  \<^verbatim>\<open>stream_id: null\<close> is \<open>None\<close>.
\<close>

record envelope =
  type :: string
  data :: json
  sender_id :: participant
  target_id :: participant
  stream_id :: "string option"

text \<open>
  What the \<^verbatim>\<open>message\<close> event delivers: a value that parses to an envelope, or one on
  which \<^verbatim>\<open>JSON.parse\<close> or \<^verbatim>\<open>data.type\<close> throws.
\<close>

datatype inbound = Malformed js_error | Message envelope

text \<open>
  A participant identifier used as a property key or in a template literal is converted
  to a string.
\<close>

definition prop_key :: "participant \<Rightarrow> string" where
  "prop_key userId =
     (case userId of NoId \<Rightarrow> ''undefined'' | NullId \<Rightarrow> ''null'' | Id u \<Rightarrow> u)"

datatype identity = User string | Anonymous nat

text \<open>
  The socket made by \<^verbatim>\<open>io(wsUrl, ...)\<close>: \<open>connected\<close> is the client's own
  \<^verbatim>\<open>connected\<close> property, \<open>disconnected\<close> records that \<^verbatim>\<open>disconnect()\<close> was called,
  \<open>emitted\<close> lists the envelopes passed to \<^verbatim>\<open>emit\<close>.
\<close>

record socket =
  ws_streamId :: string
  query_user_id :: identity
  query_token :: "string option"
  connected :: bool
  disconnected :: bool
  emitted :: "envelope list"

datatype rtc_state = New | Connecting | Connected | Disconnected | Failed | Closed

fun rtc_state_name :: "rtc_state \<Rightarrow> string" where
  "rtc_state_name New = ''new''"
| "rtc_state_name Connecting = ''connecting''"
| "rtc_state_name Connected = ''connected''"
| "rtc_state_name Disconnected = ''disconnected''"
| "rtc_state_name Failed = ''failed''"
| "rtc_state_name Closed = ''closed''"

text \<open>
  An \<^verbatim>\<open>RTCPeerConnection\<close>. \<open>pc_userId\<close> and \<open>pc_streamId\<close> are the variables
  \<^verbatim>\<open>userId\<close> and \<^verbatim>\<open>state.currentStreamId\<close> that the callbacks installed by
  \<^verbatim>\<open>createPeerConnection\<close> close over. \<open>senders\<close> lists the (track, stream) pairs
  given to \<^verbatim>\<open>addTrack\<close>.
\<close>

record peer_connection =
  pc_userId :: participant
  pc_streamId :: "string option"
  remoteDescription :: "json option"
  localDescription :: "json option"
  senders :: "(string \<times> string) list"
  remoteCandidates :: "json list"
  pc_connectionState :: rtc_state

record video_element =
  srcObject :: "media_stream option"

datatype console_entry = Log string "json list" | Error string js_error

text \<open>
  The provider. \<open>store\<close> is the reducer's state. \<open>peerConnections\<close> is the heap of
  every \<^verbatim>\<open>RTCPeerConnection\<close> constructed so far; \<open>peerConnectionsRef\<close>, the
  registry, maps a participant key to an index in it, in insertion order. An object that
  the registry no longer names stays in the heap. \<open>stoppedTracks\<close> holds the tracks on
  which \<^verbatim>\<open>stop()\<close> was called. \<open>user\<close> and \<open>token\<close> come from the
  authentication context.
\<close>

record system =
  store :: state
  socketRef :: "socket option"
  peerConnectionsRef :: "(string \<times> nat) list"
  peerConnections :: "peer_connection list"
  localVideoRef :: "video_element option"
  stoppedTracks :: "string set"
  console :: "console_entry list"
  user :: "string option"
  token :: "string option"

text \<open>
  The registry is a plain object, so reading \<^verbatim>\<open>peerConnectionsRef.current[key]\<close> also
  finds the properties inherited from \<^verbatim>\<open>Object.prototype\<close>. Each of them is truthy and
  has none of the methods of a peer connection. The code never assigns such a key: it
  assigns only after the read gave a falsy value.
\<close>

definition object_prototype_keys :: "string list" where
  "object_prototype_keys =
     [''constructor'', ''__defineGetter__'', ''__defineSetter__'', ''hasOwnProperty'',
      ''__lookupGetter__'', ''__lookupSetter__'', ''isPrototypeOf'', ''propertyIsEnumerable'',
      ''toString'', ''valueOf'', ''__proto__'', ''toLocaleString'']"

datatype registry_value = Link nat | Inherited

definition registry_get :: "(string \<times> nat) list \<Rightarrow> string \<Rightarrow> registry_value option" where
  "registry_get registry key =
     (case map_of registry key of
        Some i \<Rightarrow> Some (Link i)
      | None \<Rightarrow> if key \<in> set object_prototype_keys then Some Inherited else None)"

definition initialSystem :: "string option \<Rightarrow> string option \<Rightarrow> system" where
  "initialSystem u t =
     \<lparr> store = initialState,
       socketRef = None,
       peerConnectionsRef = [],
       peerConnections = [],
       localVideoRef = None,
       stoppedTracks = {},
       console = [],
       user = u,
       token = t \<rparr>"

definition dispatch :: "action \<Rightarrow> system \<Rightarrow> system" where
  "dispatch a sys = sys\<lparr>store := webrtcReducer (store sys) a\<rparr>"

definition console_log :: "string \<Rightarrow> json list \<Rightarrow> system \<Rightarrow> system" where
  "console_log label args sys = sys\<lparr>console := console sys @ [Log label args]\<rparr>"

definition console_error :: "string \<Rightarrow> js_error \<Rightarrow> system \<Rightarrow> system" where
  "console_error label e sys = sys\<lparr>console := console sys @ [Error label e]\<rparr>"


section \<open>The provider's operations\<close>

text \<open>
  A callback made with \<^verbatim>\<open>useCallback\<close> reads \<^verbatim>\<open>state\<close> from the render that created
  it. That snapshot is the explicit argument \<open>st\<close> of each operation that reads
  \<^verbatim>\<open>state\<close>; \<^verbatim>\<open>dispatch\<close> always acts on the store. An \<^verbatim>\<open>async\<close> handler is run to
  its end in one step, and the outcome of each browser call it awaits is an argument.
\<close>

definition emit :: "envelope \<Rightarrow> socket \<Rightarrow> socket" where
  "emit e s = s\<lparr>emitted := emitted s @ [e]\<rparr>"

text \<open>The \<^verbatim>\<open>connect\<close> and \<^verbatim>\<open>disconnect\<close> listeners that \<^verbatim>\<open>connectWebSocket\<close> registers.\<close>

definition socket_on_connect :: "system \<Rightarrow> system" where
  "socket_on_connect sys =
     (case socketRef sys of
        None \<Rightarrow> sys
      | Some s \<Rightarrow>
          (let sys1 = console_log ''WebSocket connected'' [] sys;
               sys2 = dispatch (SET_CONNECTED True) sys1
           in dispatch (SET_CURRENT_STREAM (Some (ws_streamId s))) sys2))"

definition socket_on_disconnect :: "system \<Rightarrow> system" where
  "socket_on_disconnect sys =
     dispatch (SET_CONNECTED False) (console_log ''WebSocket disconnected'' [] sys)"

text \<open>
  \<^verbatim>\<open>socketRef.current.disconnect()\<close>. On a connected socket the client clears
  \<^verbatim>\<open>connected\<close> and runs the \<^verbatim>\<open>disconnect\<close> listener before the call returns; on a
  socket that is not connected no listener runs.
\<close>

definition socket_disconnect :: "system \<Rightarrow> system" where
  "socket_disconnect sys =
     (case socketRef sys of
        None \<Rightarrow> sys
      | Some s \<Rightarrow>
          if connected s
          then socket_on_disconnect
                 (sys\<lparr>socketRef := Some (s\<lparr>connected := False, disconnected := True\<rparr>)\<rparr>)
          else sys\<lparr>socketRef := Some (s\<lparr>disconnected := True\<rparr>)\<rparr>)"

text \<open>\<open>now\<close> is the value of \<^verbatim>\<open>Date.now()\<close>; an empty \<^verbatim>\<open>user_id\<close> is falsy.\<close>

definition connectWebSocket :: "nat \<Rightarrow> string \<Rightarrow> system \<Rightarrow> system" where
  "connectWebSocket now streamId sys =
     (let sys1 = socket_disconnect sys;
          uid = (case user sys1 of
                   None \<Rightarrow> Anonymous now
                 | Some u \<Rightarrow> if u = [] then Anonymous now else User u)
      in sys1\<lparr>socketRef :=
                Some \<lparr> ws_streamId = streamId, query_user_id = uid,
                       query_token = token sys1, connected = False, disconnected = False,
                       emitted = [] \<rparr>\<rparr>)"

text \<open>The transport reports that the connection is up, or that it was lost.\<close>

definition socket_connects :: "system \<Rightarrow> system" where
  "socket_connects sys =
     (case socketRef sys of
        None \<Rightarrow> sys
      | Some s \<Rightarrow> socket_on_connect (sys\<lparr>socketRef := Some (s\<lparr>connected := True\<rparr>)\<rparr>))"

definition socket_drops :: "system \<Rightarrow> system" where
  "socket_drops sys =
     (case socketRef sys of
        None \<Rightarrow> sys
      | Some s \<Rightarrow> socket_on_disconnect (sys\<lparr>socketRef := Some (s\<lparr>connected := False\<rparr>)\<rparr>))"

definition new_peer_connection :: "participant \<Rightarrow> string option \<Rightarrow> peer_connection" where
  "new_peer_connection userId streamId =
     \<lparr> pc_userId = userId, pc_streamId = streamId, remoteDescription = None,
       localDescription = None, senders = [], remoteCandidates = [],
       pc_connectionState = New \<rparr>"

definition update_pc :: "nat \<Rightarrow> (peer_connection \<Rightarrow> peer_connection) \<Rightarrow> system \<Rightarrow> system" where
  "update_pc i f sys =
     sys\<lparr>peerConnections := (peerConnections sys)[i := f (peerConnections sys ! i)]\<rparr>"

definition pc_close :: "peer_connection \<Rightarrow> peer_connection" where
  "pc_close pc = pc\<lparr>pc_connectionState := Closed\<rparr>"

text \<open>
  \<^verbatim>\<open>createPeerConnection\<close> returns what the registry read gives when that is truthy (a
  connection, or an inherited property), and constructs a connection otherwise. The
  parameter \<^verbatim>\<open>isInitiator\<close> is not used by the body.
\<close>

definition createPeerConnection ::
  "state \<Rightarrow> participant \<Rightarrow> bool \<Rightarrow> system \<Rightarrow> system \<times> registry_value" where
  "createPeerConnection st userId isInitiator sys =
     (case registry_get (peerConnectionsRef sys) (prop_key userId) of
        Some v \<Rightarrow> (sys, v)
      | None \<Rightarrow>
          (let i = length (peerConnections sys)
           in (sys\<lparr>peerConnections :=
                      peerConnections sys @ [new_peer_connection userId (currentStreamId st)],
                    peerConnectionsRef := peerConnectionsRef sys @ [(prop_key userId, i)]\<rparr>,
               Link i)))"

text \<open>
  \<^verbatim>\<open>cleanupPeerConnection\<close>. On an inherited property \<^verbatim>\<open>.close()\<close> throws a
  \<^verbatim>\<open>TypeError\<close> that nothing catches: the function is left at once, and the error is
  returned beside the provider.
\<close>

definition cleanupPeerConnection :: "participant \<Rightarrow> system \<Rightarrow> system \<times> js_error option" where
  "cleanupPeerConnection userId sys =
     (case registry_get (peerConnectionsRef sys) (prop_key userId) of
        None \<Rightarrow> (sys, None)
      | Some Inherited \<Rightarrow> (sys, Some TypeError)
      | Some (Link i) \<Rightarrow>
          (let sys1 = update_pc i pc_close sys;
               sys2 = sys1\<lparr>peerConnectionsRef :=
                             filter (\<lambda>(k, _). k \<noteq> prop_key userId) (peerConnectionsRef sys1)\<rparr>
           in (dispatch (REMOVE_REMOTE_STREAM (prop_key userId)) sys2, None)))"

record ice_candidate =
  candidate :: js_string
  sdpMLineIndex :: "int option"
  sdpMid :: "js_string option"

definition ice_data :: "ice_candidate \<Rightarrow> json" where
  "ice_data c =
     JObject [(''candidate'', JString (candidate c)),
              (''sdpMLineIndex'', (case sdpMLineIndex c of None \<Rightarrow> JNull | Some n \<Rightarrow> JNumber n)),
              (''sdpMid'', (case sdpMid c of None \<Rightarrow> JNull | Some m \<Rightarrow> JString m))]"

text \<open>The three callbacks installed on the peer connection at heap index \<open>i\<close>.\<close>

definition pc_onicecandidate :: "nat \<Rightarrow> ice_candidate option \<Rightarrow> system \<Rightarrow> system" where
  "pc_onicecandidate i event_candidate sys =
     (let pc = peerConnections sys ! i
      in case event_candidate of
           None \<Rightarrow> sys
         | Some c \<Rightarrow>
             (case socketRef sys of
                None \<Rightarrow> sys
              | Some s \<Rightarrow>
                  sys\<lparr>socketRef :=
                        Some (emit \<lparr> type = ''ice_candidate'', data = ice_data c,
                                     sender_id = NoId, target_id = pc_userId pc,
                                     stream_id = pc_streamId pc \<rparr> s)\<rparr>))"

definition pc_ontrack :: "nat \<Rightarrow> js_string \<Rightarrow> media_stream list \<Rightarrow> system \<Rightarrow> system" where
  "pc_ontrack i kind streams sys =
     (let pc = peerConnections sys ! i;
          sys1 = console_log ''Received remote track:'' [JString kind] sys;
          remoteStream = (case streams of [] \<Rightarrow> None | x # _ \<Rightarrow> Some x)
      in dispatch (ADD_REMOTE_STREAM (prop_key (pc_userId pc)) remoteStream) sys1)"

definition pc_onconnectionstatechange :: "nat \<Rightarrow> system \<Rightarrow> system \<times> js_error option" where
  "pc_onconnectionstatechange i sys =
     (let pc = peerConnections sys ! i;
          sys1 = console_log (''Connection state for '' @ prop_key (pc_userId pc) @ '':'')
                   [JString (ascii (rtc_state_name (pc_connectionState pc)))] sys;
          sys2 = dispatch (SET_CONNECTION_STATE (rtc_state_name (pc_connectionState pc))) sys1
      in if pc_connectionState pc = Failed \<or> pc_connectionState pc = Closed
         then cleanupPeerConnection (pc_userId pc) sys2
         else (sys2, None))"

text \<open>
  The outcomes of the browser calls a handler makes: \<open>None\<close> when the call returns or
  resolves, the error when it throws or rejects. The argument of a call is evaluated
  before the call, so the two constructors have outcomes of their own.
  \<^verbatim>\<open>createAnswer\<close> is given the connection as it is at the time of the call.
\<close>

record rtc_outcomes =
  RTCSessionDescription_error :: "js_error option"
  setRemoteDescription_error :: "js_error option"
  addTrack_error :: "string \<Rightarrow> js_error option"
  createAnswer_result :: "peer_connection \<Rightarrow> js_error + json"
  setLocalDescription_error :: "js_error option"
  RTCIceCandidate_error :: "js_error option"
  addIceCandidate_error :: "js_error option"

text \<open>
  \<^verbatim>\<open>getTracks().forEach(track => peerConnection.addTrack(track, stream))\<close>: the loop
  ends at the first track on which \<^verbatim>\<open>addTrack\<close> throws.
\<close>

fun addTracks ::
  "(string \<Rightarrow> js_error option) \<Rightarrow> string \<Rightarrow> string list \<Rightarrow> peer_connection
     \<Rightarrow> peer_connection \<times> js_error option" where
  "addTracks err sid [] pc = (pc, None)"
| "addTracks err sid (t # ts) pc =
     (case err t of
        Some e \<Rightarrow> (pc, Some e)
      | None \<Rightarrow> addTracks err sid ts (pc\<lparr>senders := senders pc @ [(t, sid)]\<rparr>))"

text \<open>
  \<^verbatim>\<open>handleRemoteOffer\<close>. When \<^verbatim>\<open>createPeerConnection\<close> has returned an inherited
  property, \<^verbatim>\<open>peerConnection.setRemoteDescription\<close> is not a function and the call throws
  a \<^verbatim>\<open>TypeError\<close>, which the handler catches and logs like every other error.
\<close>

definition handleRemoteOffer :: "state \<Rightarrow> rtc_outcomes \<Rightarrow> envelope \<Rightarrow> system \<Rightarrow> system" where
  "handleRemoteOffer st r message sys =
     (let label = ''Error handling remote offer:'';
          (sys1, peerConnection) = createPeerConnection st (sender_id message) False sys
      in case RTCSessionDescription_error r of
           Some e \<Rightarrow> console_error label e sys1
         | None \<Rightarrow>
        (case peerConnection of
           Inherited \<Rightarrow> console_error label TypeError sys1
         | Link i \<Rightarrow>
        (case setRemoteDescription_error r of
           Some e \<Rightarrow> console_error label e sys1
         | None \<Rightarrow>
             (let sys2 = update_pc i (\<lambda>pc. pc\<lparr>remoteDescription := Some (data message)\<rparr>) sys1;
                  (pc3, failed) =
                     (case localStream st of
                        None \<Rightarrow> (peerConnections sys2 ! i, None)
                      | Some ls \<Rightarrow>
                          addTracks (addTrack_error r) (media_id ls) (getTracks ls)
                            (peerConnections sys2 ! i));
                  sys3 = update_pc i (\<lambda>_. pc3) sys2
              in case failed of
                   Some e \<Rightarrow> console_error label e sys3
                 | None \<Rightarrow>
                     (case createAnswer_result r pc3 of
                        Inl e \<Rightarrow> console_error label e sys3
                      | Inr answer \<Rightarrow>
                          (case setLocalDescription_error r of
                             Some e \<Rightarrow> console_error label e sys3
                           | None \<Rightarrow>
                               (let sys4 = update_pc i
                                             (\<lambda>pc. pc\<lparr>localDescription := Some answer\<rparr>) sys3
                                in case socketRef sys4 of
                                     None \<Rightarrow> sys4
                                   | Some s \<Rightarrow>
                                       sys4\<lparr>socketRef :=
                                              Some (emit \<lparr> type = ''answer'', data = answer,
                                                           sender_id = NoId,
                                                           target_id = sender_id message,
                                                           stream_id = currentStreamId st \<rparr> s)\<rparr>)))))))"

definition handleRemoteAnswer :: "rtc_outcomes \<Rightarrow> envelope \<Rightarrow> system \<Rightarrow> system" where
  "handleRemoteAnswer r message sys =
     (let label = ''Error handling remote answer:''
      in case registry_get (peerConnectionsRef sys) (prop_key (sender_id message)) of
           None \<Rightarrow> sys
         | Some peerConnection \<Rightarrow>
             (case RTCSessionDescription_error r of
                Some e \<Rightarrow> console_error label e sys
              | None \<Rightarrow>
                  (case peerConnection of
                     Inherited \<Rightarrow> console_error label TypeError sys
                   | Link i \<Rightarrow>
                       (case setRemoteDescription_error r of
                          Some e \<Rightarrow> console_error label e sys
                        | None \<Rightarrow>
                            update_pc i (\<lambda>pc. pc\<lparr>remoteDescription := Some (data message)\<rparr>)
                              sys))))"

definition handleRemoteIceCandidate :: "rtc_outcomes \<Rightarrow> envelope \<Rightarrow> system \<Rightarrow> system" where
  "handleRemoteIceCandidate r message sys =
     (let label = ''Error handling remote ICE candidate:''
      in case registry_get (peerConnectionsRef sys) (prop_key (sender_id message)) of
           None \<Rightarrow> sys
         | Some peerConnection \<Rightarrow>
             (case RTCIceCandidate_error r of
                Some e \<Rightarrow> console_error label e sys
              | None \<Rightarrow>
                  (case peerConnection of
                     Inherited \<Rightarrow> console_error label TypeError sys
                   | Link i \<Rightarrow>
                       (case addIceCandidate_error r of
                          Some e \<Rightarrow> console_error label e sys
                        | None \<Rightarrow>
                            update_pc i
                              (\<lambda>pc. pc\<lparr>remoteCandidates := remoteCandidates pc @ [data message]\<rparr>)
                              sys))))"


text \<open>
  \<^verbatim>\<open>getUserMedia\<close> is an argument: it maps the constraints to the stream granted or to
  the error it rejects with. An omitted argument is \<open>JUndefined\<close> and takes the default.
\<close>

definition initializeCamera ::
  "(json \<Rightarrow> js_error + media_stream) \<Rightarrow> json \<Rightarrow> system \<Rightarrow> system \<times> (js_error + media_stream)" where
  "initializeCamera getUserMedia constraints sys =
     (let constraints1 =
            (if constraints = JUndefined
             then JObject [(''video'', JBool True), (''audio'', JBool True)]
             else constraints)
      in case getUserMedia constraints1 of
           Inr stream \<Rightarrow>
             (let sys1 = dispatch (SET_LOCAL_STREAM (Some stream)) sys;
                  sys2 = (case localVideoRef sys1 of
                            None \<Rightarrow> sys1
                          | Some v \<Rightarrow> sys1\<lparr>localVideoRef := Some (v\<lparr>srcObject := Some stream\<rparr>)\<rparr>)
              in (sys2, Inr stream))
         | Inl e \<Rightarrow>
             (let sys1 = console_error ''Error accessing camera:'' e sys;
                  sys2 = dispatch
                           (SET_ERROR (JString (ascii ''Failed to access camera/microphone''))) sys1
              in (sys2, Inl e)))"

definition startStreaming ::
  "(json \<Rightarrow> js_error + media_stream) \<Rightarrow> nat \<Rightarrow> string \<Rightarrow> json \<Rightarrow> system
     \<Rightarrow> system \<times> (js_error + media_stream)" where
  "startStreaming getUserMedia now streamId streamOptions sys =
     (let sys1 = dispatch (SET_ERROR JNull) sys;
          failure = (\<lambda>e sys'.
            (dispatch (SET_ERROR (JString (ascii ''Failed to start streaming'')))
               (console_error ''Error starting stream:'' e sys'), Inl e))
      in case get_prop (if streamOptions = JUndefined then JObject [] else streamOptions)
                ''constraints'' of
           Inl e \<Rightarrow> failure e sys1
         | Inr constraints \<Rightarrow>
             (case initializeCamera getUserMedia constraints sys1 of
                (sys2, Inl e) \<Rightarrow> failure e sys2
              | (sys2, Inr stream) \<Rightarrow>
                  (let sys3 = connectWebSocket now streamId sys2;
                       sys4 = dispatch (SET_STREAMING True) sys3;
                       sys5 = dispatch (SET_CONNECTION_STATE ''connecting'') sys4
                   in (sys5, Inr stream))))"

definition joinStream :: "nat \<Rightarrow> string \<Rightarrow> system \<Rightarrow> system" where
  "joinStream now streamId sys =
     (let sys1 = dispatch (SET_ERROR JNull) sys;
          sys2 = dispatch CLEAR_CHAT sys1;
          sys3 = connectWebSocket now streamId sys2;
          sys4 = dispatch (SET_VIEWING True) sys3
      in dispatch (SET_CONNECTION_STATE ''connecting'') sys4)"

text \<open>
  \<^verbatim>\<open>String.prototype.trim\<close> removes leading and trailing white space and line
  terminators. These are the code units that ECMAScript counts as such: TAB, LF, VT, FF,
  CR, the space separators of Unicode (U+0020, U+00A0, U+1680, U+2000 to U+200A, U+202F,
  U+205F, U+3000), the line and paragraph separators U+2028 and U+2029, and U+FEFF.
\<close>

definition white_space_code_units :: "16 word list" where
  "white_space_code_units =
     [0x0009, 0x000A, 0x000B, 0x000C, 0x000D, 0x0020, 0x00A0, 0x1680,
      0x2000, 0x2001, 0x2002, 0x2003, 0x2004, 0x2005, 0x2006, 0x2007, 0x2008, 0x2009, 0x200A,
      0x2028, 0x2029, 0x202F, 0x205F, 0x3000, 0xFEFF]"

definition is_white_space :: "16 word \<Rightarrow> bool" where
  "is_white_space c \<longleftrightarrow> c \<in> set white_space_code_units"

definition trim :: "js_string \<Rightarrow> js_string" where
  "trim s = rev (dropWhile is_white_space (rev (dropWhile is_white_space s)))"

definition sendChatMessage :: "state \<Rightarrow> js_string \<Rightarrow> system \<Rightarrow> system" where
  "sendChatMessage st message sys =
     (case socketRef sys of
        None \<Rightarrow> sys
      | Some s \<Rightarrow>
          if isConnected st
          then sys\<lparr>socketRef :=
                     Some (emit \<lparr> type = ''chat_message'',
                                  data = JObject [(''content'', JString (trim message))],
                                  sender_id = NoId, target_id = NoId,
                                  stream_id = currentStreamId st \<rparr> s)\<rparr>
          else sys)"

definition stop_track :: "string \<Rightarrow> system \<Rightarrow> system" where
  "stop_track t sys = sys\<lparr>stoppedTracks := insert t (stoppedTracks sys)\<rparr>"

text \<open>\<^verbatim>\<open>Object.values(peerConnectionsRef.current).forEach(pc => pc.close())\<close>, then the
  registry is replaced by an empty object.\<close>

definition close_peer_connections :: "system \<Rightarrow> system" where
  "close_peer_connections sys =
     (fold (\<lambda>i. update_pc i pc_close) (map snd (peerConnectionsRef sys)) sys)
       \<lparr>peerConnectionsRef := []\<rparr>"

definition stopStreaming :: "state \<Rightarrow> system \<Rightarrow> system" where
  "stopStreaming st sys =
     (let sys1 = (case localStream st of
                    None \<Rightarrow> sys
                  | Some ls \<Rightarrow> fold stop_track (getTracks ls) sys);
          sys2 = close_peer_connections sys1;
          sys3 = socket_disconnect sys2
      in dispatch RESET_STATE sys3)"

definition stopViewing :: "system \<Rightarrow> system" where
  "stopViewing sys =
     (let sys1 = close_peer_connections sys;
          sys2 = socket_disconnect sys1;
          sys3 = dispatch (SET_VIEWING False) sys2;
          sys4 = dispatch (SET_CONNECTED False) sys3
      in dispatch (SET_CONNECTION_STATE ''disconnected'') sys4)"

text \<open>
  The router. Every branch runs inside one \<^verbatim>\<open>try\<close>; a throw is logged.

  The router is made by \<^verbatim>\<open>useCallback\<close> with an empty dependency list, so it is the
  function of the first render for the whole life of the provider, and the
  \<^verbatim>\<open>handleRemoteOffer\<close> it calls is the one of the first render too. The state of the
  first render is \<open>initialState\<close>: that is the snapshot the offer handler reads here,
  whatever the store holds by then.
\<close>

definition handleWebSocketMessage :: "rtc_outcomes \<Rightarrow> inbound \<Rightarrow> system \<Rightarrow> system" where
  "handleWebSocketMessage r message sys =
     (let label = ''Error handling WebSocket message:''
      in case message of
           Malformed e \<Rightarrow> console_error label e sys
         | Message m \<Rightarrow>
             if type m = ''offer'' then handleRemoteOffer initialState r m sys
             else if type m = ''answer'' then handleRemoteAnswer r m sys
             else if type m = ''ice_candidate'' then handleRemoteIceCandidate r m sys
             else if type m = ''chat_message'' then dispatch (ADD_CHAT_MESSAGE (data m)) sys
             else if type m = ''user_joined'' then
               (case get_prop (data m) ''user_id'' of
                  Inl e \<Rightarrow> console_error label e sys
                | Inr u \<Rightarrow> console_log ''User joined:'' [u] sys)
             else if type m = ''user_left'' then
               (case get_prop (data m) ''user_id'' of
                  Inl e \<Rightarrow> console_error label e sys
                | Inr u \<Rightarrow> console_log ''User left:'' [u] sys)
             else if type m = ''stream_started'' then console_log ''Stream started'' [] sys
             else if type m = ''stream_ended'' then
               stopViewing (console_log ''Stream ended'' [] sys)
             else if type m = ''error'' then
               (case get_prop (data m) ''message'' of
                  Inl e \<Rightarrow> console_error label e sys
                | Inr msg \<Rightarrow> dispatch (SET_ERROR msg) sys)
             else console_log ''Unknown message type:'' [JString (ascii (type m))] sys)"

section \<open>Reachable provider states\<close>

text \<open>
  The events that drive the provider: the calls of the public API, the socket's and the
  peer connections' callbacks, and changes made by the surrounding components (the
  video element ref, the authenticated user). A call of the public API carries the
  snapshot that the called function holds, unconstrained. Before
  \<^verbatim>\<open>onconnectionstatechange\<close> runs, the browser has set the new state; an error that
  escapes the callback is dropped.
\<close>

datatype event =
    Call_startStreaming "json \<Rightarrow> js_error + media_stream" nat string json
  | Call_joinStream nat string
  | Call_stopStreaming state
  | Call_stopViewing
  | Call_sendChatMessage state js_string
  | Call_initializeCamera "json \<Rightarrow> js_error + media_stream" json
  | Socket_connect
  | Socket_disconnect
  | Socket_message rtc_outcomes inbound
  | Pc_icecandidate nat "ice_candidate option"
  | Pc_track nat js_string "media_stream list"
  | Pc_connectionstatechange nat rtc_state
  | Video_ref "video_element option"
  | Auth_change "string option" "string option"

fun step :: "event \<Rightarrow> system \<Rightarrow> system" where
  "step (Call_startStreaming g now streamId opts) sys = fst (startStreaming g now streamId opts sys)"
| "step (Call_joinStream now streamId) sys = joinStream now streamId sys"
| "step (Call_stopStreaming st) sys = stopStreaming st sys"
| "step Call_stopViewing sys = stopViewing sys"
| "step (Call_sendChatMessage st text) sys = sendChatMessage st text sys"
| "step (Call_initializeCamera g constraints) sys = fst (initializeCamera g constraints sys)"
| "step Socket_connect sys = socket_connects sys"
| "step Socket_disconnect sys = socket_drops sys"
| "step (Socket_message r message) sys = handleWebSocketMessage r message sys"
| "step (Pc_icecandidate i c) sys = pc_onicecandidate i c sys"
| "step (Pc_track i kind streams) sys = pc_ontrack i kind streams sys"
| "step (Pc_connectionstatechange i new_state) sys =
     fst (pc_onconnectionstatechange i
            (update_pc i (\<lambda>pc. pc\<lparr>pc_connectionState := new_state\<rparr>) sys))"
| "step (Video_ref v) sys = sys\<lparr>localVideoRef := v\<rparr>"
| "step (Auth_change u t) sys = sys\<lparr>user := u, token := t\<rparr>"

text \<open>
  A socket event needs a socket; a peer connection event needs a constructed connection
  on which \<^verbatim>\<open>close()\<close> has not been called.
\<close>

fun enabled :: "event \<Rightarrow> system \<Rightarrow> bool" where
  "enabled Socket_connect sys = (socketRef sys \<noteq> None)"
| "enabled Socket_disconnect sys = (socketRef sys \<noteq> None)"
| "enabled (Socket_message r message) sys = (socketRef sys \<noteq> None)"
| "enabled (Pc_icecandidate i c) sys =
     (i < length (peerConnections sys) \<and> pc_connectionState (peerConnections sys ! i) \<noteq> Closed)"
| "enabled (Pc_track i kind streams) sys =
     (i < length (peerConnections sys) \<and> pc_connectionState (peerConnections sys ! i) \<noteq> Closed)"
| "enabled (Pc_connectionstatechange i new_state) sys =
     (i < length (peerConnections sys) \<and> pc_connectionState (peerConnections sys ! i) \<noteq> Closed)"
| "enabled e sys = True"

inductive reachable :: "system \<Rightarrow> bool" where
  reachable_init: "reachable (initialSystem u t)"
| reachable_step: "reachable sys \<Longrightarrow> enabled e sys \<Longrightarrow> reachable (step e sys)"

section \<open>Auxiliary notions for the statements\<close>

definition connection_state_names :: "string list" where
  "connection_state_names =
     [''disconnected'', ''connecting'', ''new'', ''connected'', ''failed'', ''closed'']"

definition provider_inv :: "system \<Rightarrow> bool" where
  "provider_inv sys \<longleftrightarrow>
     (isConnected (store sys) \<longrightarrow> socketRef sys \<noteq> None) \<and>
     connectionState (store sys) \<in> set connection_state_names"

subsection \<open>Concrete scenarios\<close>

definition camera_a :: media_stream where
  "camera_a = \<lparr> media_id = ''a'', getTracks = [''a-audio'', ''a-video''] \<rparr>"

definition camera_b :: media_stream where
  "camera_b = \<lparr> media_id = ''b'', getTracks = [''b-audio'', ''b-video''] \<rparr>"

definition remote_media :: media_stream where
  "remote_media = \<lparr> media_id = ''r'', getTracks = [''r-video''] \<rparr>"

definition first_capture :: system where
  "first_capture =
     fst (initializeCamera (\<lambda>_. Inr camera_a) JUndefined (initialSystem None None))"

definition offer_from_P :: envelope where
  "offer_from_P =
     \<lparr> type = ''offer'',
       data = JObject [(''type'', JString (ascii ''offer'')), (''sdp'', JString (ascii ''v=0''))],
       sender_id = Id ''P'', target_id = NoId, stream_id = Some ''s1'' \<rparr>"

text \<open>Every browser call succeeds; the answer reports how many senders it saw.\<close>

definition negotiation_ok :: rtc_outcomes where
  "negotiation_ok =
     \<lparr> RTCSessionDescription_error = None,
       setRemoteDescription_error = None,
       addTrack_error = (\<lambda>_. None),
       createAnswer_result =
         (\<lambda>pc. Inr (JObject [(''type'', JString (ascii ''answer'')),
                              (''media'', JNumber (int (length (senders pc))))])),
       setLocalDescription_error = None,
       RTCIceCandidate_error = None,
       addIceCandidate_error = None \<rparr>"

definition answer_with :: "nat \<Rightarrow> string option \<Rightarrow> envelope" where
  "answer_with n sid =
     \<lparr> type = ''answer'',
       data = JObject [(''type'', JString (ascii ''answer'')), (''media'', JNumber (int n))],
       sender_id = NoId, target_id = Id ''P'', stream_id = sid \<rparr>"

text \<open>A viewer joins stream \<^verbatim>\<open>s1\<close>, the socket connects, participant \<^verbatim>\<open>P\<close> sends an
  offer, and a remote track arrives.\<close>

definition viewer_joined :: system where
  "viewer_joined =
     step Socket_connect (step (Call_joinStream 0 ''s1'') (initialSystem None None))"

definition viewer_linked :: system where
  "viewer_linked = step (Socket_message negotiation_ok (Message offer_from_P)) viewer_joined"

definition viewer_watching :: system where
  "viewer_watching = step (Pc_track 0 (ascii ''video'') [remote_media]) viewer_linked"

text \<open>A streamer starts stream \<^verbatim>\<open>s1\<close> with camera \<^verbatim>\<open>a\<close>, and the socket connects.\<close>

definition streamer_live :: system where
  "streamer_live =
     step Socket_connect
       (step (Call_startStreaming (\<lambda>_. Inr camera_a) 0 ''s1'' JUndefined)
          (initialSystem None None))"

definition open_socket :: socket where
  "open_socket =
     \<lparr> ws_streamId = ''s1'', query_user_id = Anonymous 0, query_token = None,
       connected = True, disconnected = False, emitted = [] \<rparr>"

definition linked_connection :: peer_connection where
  "linked_connection =
     \<lparr> pc_userId = Id ''P'', pc_streamId = None,
       remoteDescription = Some (data offer_from_P),
       localDescription =
         Some (JObject [(''type'', JString (ascii ''answer'')), (''media'', JNumber 0)]),
       senders = [],
       remoteCandidates = [],
       pc_connectionState = New \<rparr>"

definition answer_message :: envelope where
  "answer_message =
     \<lparr> type = ''answer'',
       data = JObject [(''type'', JString (ascii ''answer'')), (''sdp'', JString (ascii ''v=0''))],
       sender_id = Id ''Q'', target_id = NoId, stream_id = Some ''s1'' \<rparr>"

definition stream_ended_message :: envelope where
  "stream_ended_message =
     \<lparr> type = ''stream_ended'', data = JObject [], sender_id = NoId, target_id = NoId,
       stream_id = Some ''s1'' \<rparr>"

section \<open>The chat log\<close>

lemma slice_last_100: "slice (- 100) xs = drop (length xs - 100) xs"
proof -
  have "nat (max (int (length xs) - 100) 0) = length xs - 100" by arith
  then show ?thesis by (simp add: slice_def Let_def)
qed

lemma slice_slice_append:
  "slice (- 100) (slice (- 100) xs @ ys) = slice (- 100) (xs @ ys)"
proof (cases "length xs \<le> 100")
  case True
  then show ?thesis by (simp add: slice_last_100)
next
  case False
  then have "length xs - (length xs - 100) = 100" by arith
  moreover from False
  have "length xs + length ys - 100 = (length xs - 100) + length ys" by arith
  ultimately show ?thesis by (simp add: slice_last_100 add.commute)
qed

lemma chat_append_all:
  "chatMessages (dispatchAll s (map ADD_CHAT_MESSAGE ms)) =
     (if ms = [] then chatMessages s else slice (- 100) (chatMessages s @ ms))"
proof (induction ms arbitrary: s)
  case Nil
  then show ?case by (simp add: dispatchAll_def)
next
  case (Cons m ms)
  have "dispatchAll s (map ADD_CHAT_MESSAGE (m # ms)) =
        dispatchAll (webrtcReducer s (ADD_CHAT_MESSAGE m)) (map ADD_CHAT_MESSAGE ms)"
    by (simp add: dispatchAll_def)
  then have "chatMessages (dispatchAll s (map ADD_CHAT_MESSAGE (m # ms))) =
     (if ms = [] then slice (- 100) (chatMessages s @ [m])
      else slice (- 100) (slice (- 100) (chatMessages s @ [m]) @ ms))"
    using Cons.IH [of "webrtcReducer s (ADD_CHAT_MESSAGE m)"] by simp
  then show ?case by (simp add: slice_slice_append)
qed

text \<open>
  C2. Starting from a chat log of at most 100 messages (the initial log is empty), after
  any sequence of chat-append actions the log has at most 100 messages; after more than
  100 appends it is exactly the last 100 appended messages, in arrival order.
\<close>

theorem chat_log_sliding_window:
  "length (chatMessages s) \<le> 100 \<Longrightarrow>
     length (chatMessages (dispatchAll s (map ADD_CHAT_MESSAGE ms))) \<le> 100 \<and>
     (100 < length ms \<longrightarrow>
        chatMessages (dispatchAll s (map ADD_CHAT_MESSAGE ms)) = drop (length ms - 100) ms)"
  by (auto simp: chat_append_all slice_last_100)

theorem chat_log_sliding_window_witness:
  "length (chatMessages initialState) \<le> 100 \<and>
   100 < length (map JNumber [0..100]) \<and>
   length (chatMessages
             (dispatchAll initialState (map ADD_CHAT_MESSAGE (map JNumber [0..100])))) \<le> 100 \<and>
   chatMessages (dispatchAll initialState (map ADD_CHAT_MESSAGE (map JNumber [0..100]))) =
     map JNumber [1..100]"
  using chat_log_sliding_window [of initialState "map JNumber [0..100]"]
  by (simp add: initialState_def upto_rec1 [of 0 100])

section \<open>Reset\<close>

text \<open>
  C6. From every prior state, the reset transition keeps \<open>localStream\<close> as it was and
  gives every other field the value it has in \<open>initialState\<close>: no remote streams, both
  flags false, connection state \<^verbatim>\<open>disconnected\<close>, empty chat log, no stream info, empty
  viewer list, no error, not connected, no current stream.
\<close>

theorem reset_preserves_only_localStream:
  "webrtcReducer s RESET_STATE = initialState\<lparr>localStream := localStream s\<rparr> \<and>
   localStream (webrtcReducer s RESET_STATE) = localStream s \<and>
   remoteStreams (webrtcReducer s RESET_STATE) = Map.empty \<and>
   isStreaming (webrtcReducer s RESET_STATE) = False \<and>
   isViewing (webrtcReducer s RESET_STATE) = False \<and>
   connectionState (webrtcReducer s RESET_STATE) = ''disconnected'' \<and>
   chatMessages (webrtcReducer s RESET_STATE) = [] \<and>
   streamInfo (webrtcReducer s RESET_STATE) = JNull \<and>
   viewers (webrtcReducer s RESET_STATE) = [] \<and>
   error (webrtcReducer s RESET_STATE) = JNull \<and>
   isConnected (webrtcReducer s RESET_STATE) = False \<and>
   currentStreamId (webrtcReducer s RESET_STATE) = None"
  by (simp add: initialState_def)

section \<open>Stopping\<close>

lemma fold_update_pc_frame:
  "store (fold (\<lambda>i. update_pc i f) is sys) = store sys \<and>
   socketRef (fold (\<lambda>i. update_pc i f) is sys) = socketRef sys \<and>
   peerConnectionsRef (fold (\<lambda>i. update_pc i f) is sys) = peerConnectionsRef sys \<and>
   localVideoRef (fold (\<lambda>i. update_pc i f) is sys) = localVideoRef sys \<and>
   stoppedTracks (fold (\<lambda>i. update_pc i f) is sys) = stoppedTracks sys \<and>
   console (fold (\<lambda>i. update_pc i f) is sys) = console sys \<and>
   user (fold (\<lambda>i. update_pc i f) is sys) = user sys \<and>
   token (fold (\<lambda>i. update_pc i f) is sys) = token sys \<and>
   length (peerConnections (fold (\<lambda>i. update_pc i f) is sys)) = length (peerConnections sys)"
  by (induction "is" arbitrary: sys) (simp_all add: update_pc_def)

lemma fold_stop_track:
  "fold stop_track ts sys = sys\<lparr>stoppedTracks := stoppedTracks sys \<union> set ts\<rparr>"
  by (induction ts arbitrary: sys) (simp_all add: stop_track_def insert_commute)


lemma close_peer_connections_frame:
  "store (close_peer_connections sys) = store sys \<and>
   socketRef (close_peer_connections sys) = socketRef sys \<and>
   peerConnectionsRef (close_peer_connections sys) = [] \<and>
   localVideoRef (close_peer_connections sys) = localVideoRef sys \<and>
   stoppedTracks (close_peer_connections sys) = stoppedTracks sys \<and>
   console (close_peer_connections sys) = console sys \<and>
   user (close_peer_connections sys) = user sys \<and>
   token (close_peer_connections sys) = token sys \<and>
   length (peerConnections (close_peer_connections sys)) = length (peerConnections sys)"
  by (simp add: close_peer_connections_def fold_update_pc_frame)

lemmas socket_defs = socket_disconnect_def socket_on_disconnect_def dispatch_def console_log_def

lemma store_stopStreaming:
  "store (stopStreaming st sys) = initialState\<lparr>localStream := localStream (store sys)\<rparr>"
  by (simp add: stopStreaming_def Let_def socket_defs
      close_peer_connections_frame fold_stop_track split: option.splits)



section \<open>Log-only envelopes\<close>

text \<open>
  C10. An inbound envelope of type \<^verbatim>\<open>stream_started\<close> is log-only: it adds one console
  line and leaves the session state, the socket, the registry and every peer connection
  as they were.
\<close>

theorem stream_started_log_only:
  "handleWebSocketMessage r (Message (m\<lparr>type := ''stream_started''\<rparr>)) sys =
     sys\<lparr>console := console sys @ [Log ''Stream started'' []]\<rparr> \<and>
   store (handleWebSocketMessage r (Message (m\<lparr>type := ''stream_started''\<rparr>)) sys) =
     store sys \<and>
   socketRef (handleWebSocketMessage r (Message (m\<lparr>type := ''stream_started''\<rparr>)) sys) =
     socketRef sys \<and>
   peerConnectionsRef
     (handleWebSocketMessage r (Message (m\<lparr>type := ''stream_started''\<rparr>)) sys) =
     peerConnectionsRef sys \<and>
   peerConnections
     (handleWebSocketMessage r (Message (m\<lparr>type := ''stream_started''\<rparr>)) sys) =
     peerConnections sys \<and>
   stoppedTracks
     (handleWebSocketMessage r (Message (m\<lparr>type := ''stream_started''\<rparr>)) sys) =
     stoppedTracks sys"
  by (simp add: handleWebSocketMessage_def console_log_def)

section \<open>Invariants of the reachable states\<close>

lemmas inv_defs = provider_inv_def dispatch_def console_log_def console_error_def update_pc_def
  socket_disconnect_def socket_on_disconnect_def emit_def

lemma rtc_state_name_allowed: "rtc_state_name s \<in> set connection_state_names"
  by (cases s) (simp_all add: connection_state_names_def)

lemma createPeerConnection_keeps:
  assumes "createPeerConnection st u b sys = (sys1, v)"
  shows "store sys1 = store sys" and "socketRef sys1 = socketRef sys"
  using assms
  by (auto simp: createPeerConnection_def Let_def split: option.splits)

lemma handleRemoteOffer_keeps:
  shows "store (handleRemoteOffer st r m sys) = store sys"
    and "socketRef sys \<noteq> None \<Longrightarrow> socketRef (handleRemoteOffer st r m sys) \<noteq> None"
proof -
  obtain sys1 v where c: "createPeerConnection st (sender_id m) False sys = (sys1, v)"
    by (cases "createPeerConnection st (sender_id m) False sys")
  note k = createPeerConnection_keeps [OF c]
  show "store (handleRemoteOffer st r m sys) = store sys"
    using k(1) by (simp add: handleRemoteOffer_def c Let_def console_error_def update_pc_def
        split: option.splits sum.splits prod.splits registry_value.splits)
  show "socketRef sys \<noteq> None \<Longrightarrow> socketRef (handleRemoteOffer st r m sys) \<noteq> None"
    using k(2) by (auto simp add: handleRemoteOffer_def c Let_def console_error_def update_pc_def
        split: option.splits sum.splits prod.splits registry_value.splits)
qed

lemma handleRemoteOffer_provider_inv:
  "provider_inv sys \<Longrightarrow> socketRef sys \<noteq> None \<Longrightarrow>
     provider_inv (handleRemoteOffer st r m sys)"
  by (simp add: provider_inv_def handleRemoteOffer_keeps)

lemma handleRemoteAnswer_provider_inv:
  "provider_inv sys \<Longrightarrow> provider_inv (handleRemoteAnswer r m sys)"
  by (simp add: handleRemoteAnswer_def Let_def inv_defs
      split: option.splits registry_value.splits)

lemma handleRemoteIceCandidate_provider_inv:
  "provider_inv sys \<Longrightarrow> provider_inv (handleRemoteIceCandidate r m sys)"
  by (simp add: handleRemoteIceCandidate_def Let_def inv_defs
      split: option.splits registry_value.splits)

lemma stopViewing_provider_inv: "provider_inv (stopViewing sys)"
  by (simp add: stopViewing_def Let_def inv_defs close_peer_connections_frame
      connection_state_names_def split: option.splits)

lemma stopStreaming_provider_inv: "provider_inv (stopStreaming st sys)"
  by (simp add: provider_inv_def store_stopStreaming initialState_def
      connection_state_names_def)

lemma cleanupPeerConnection_provider_inv:
  "provider_inv sys \<Longrightarrow> provider_inv (fst (cleanupPeerConnection u sys))"
  by (auto simp: cleanupPeerConnection_def Let_def inv_defs
      split: option.splits registry_value.splits)

lemma pc_onconnectionstatechange_provider_inv:
  "provider_inv sys \<Longrightarrow> provider_inv (fst (pc_onconnectionstatechange i sys))"
proof -
  assume a: "provider_inv sys"
  define pc where "pc = peerConnections sys ! i"
  define sys2 where "sys2 =
    dispatch (SET_CONNECTION_STATE (rtc_state_name (pc_connectionState pc)))
      (console_log (''Connection state for '' @ prop_key (pc_userId pc) @ '':'')
         [JString (ascii (rtc_state_name (pc_connectionState pc)))] sys)"
  have "provider_inv sys2"
    using a rtc_state_name_allowed [of "pc_connectionState pc"]
    by (simp add: sys2_def inv_defs)
  moreover have "pc_onconnectionstatechange i sys =
      (if pc_connectionState pc = Failed \<or> pc_connectionState pc = Closed
       then cleanupPeerConnection (pc_userId pc) sys2 else (sys2, None))"
    unfolding pc_onconnectionstatechange_def Let_def pc_def sys2_def by (rule refl)
  ultimately show ?thesis
    by (simp add: cleanupPeerConnection_provider_inv)
qed

lemma provider_inv_update_pc: "provider_inv (update_pc i f sys) = provider_inv sys"
  by (simp add: inv_defs)

lemma pc_onicecandidate_provider_inv:
  "provider_inv sys \<Longrightarrow> provider_inv (pc_onicecandidate i c sys)"
  by (auto simp add: pc_onicecandidate_def Let_def inv_defs split: option.splits)

lemma pc_ontrack_provider_inv:
  "provider_inv sys \<Longrightarrow> provider_inv (pc_ontrack i k ss sys)"
  by (simp add: pc_ontrack_def Let_def inv_defs)

lemma socket_connects_provider_inv:
  "provider_inv sys \<Longrightarrow> provider_inv (socket_connects sys)"
  by (auto simp add: socket_connects_def socket_on_connect_def Let_def inv_defs
      split: option.splits)

lemma socket_drops_provider_inv:
  "provider_inv sys \<Longrightarrow> provider_inv (socket_drops sys)"
  by (auto simp add: socket_drops_def Let_def inv_defs split: option.splits)

lemma connectWebSocket_keeps:
  "socketRef (connectWebSocket now sid sys) \<noteq> None"
  "connectionState (store (connectWebSocket now sid sys)) = connectionState (store sys)"
  by (simp_all add: connectWebSocket_def Let_def inv_defs split: option.splits)

lemma joinStream_provider_inv:
  "provider_inv sys \<Longrightarrow> provider_inv (joinStream now sid sys)"
  by (simp add: joinStream_def Let_def provider_inv_def dispatch_def connectWebSocket_keeps
      connection_state_names_def)

lemma initializeCamera_provider_inv:
  "provider_inv sys \<Longrightarrow> provider_inv (fst (initializeCamera g c sys))"
  by (simp add: initializeCamera_def Let_def inv_defs split: sum.splits option.splits)

lemma startStreaming_provider_inv:
  assumes "provider_inv sys"
  shows "provider_inv (fst (startStreaming g now sid opts sys))"
proof -
  have 1: "provider_inv (dispatch (SET_ERROR JNull) sys)"
    using assms by (simp add: inv_defs)
  have fail: "\<And>e s. provider_inv s \<Longrightarrow>
      provider_inv (dispatch (SET_ERROR (JString (ascii ''Failed to start streaming'')))
               (console_error ''Error starting stream:'' e s))"
    by (simp add: inv_defs)
  have ok: "\<And>s. provider_inv s \<Longrightarrow>
      provider_inv (dispatch (SET_CONNECTION_STATE ''connecting'')
        (dispatch (SET_STREAMING True) (connectWebSocket now sid s)))"
    by (simp add: provider_inv_def dispatch_def connectWebSocket_keeps
        connection_state_names_def)
  have cam: "\<And>c. provider_inv (fst (initializeCamera g c (dispatch (SET_ERROR JNull) sys)))"
    by (rule initializeCamera_provider_inv [OF 1])
  show ?thesis
  proof (cases "get_prop (if opts = JUndefined then JObject [] else opts) ''constraints''")
    case (Inl e)
    then show ?thesis using fail [OF 1] by (simp add: startStreaming_def Let_def)
  next
    case (Inr c)
    obtain s2 res where ic: "initializeCamera g c (dispatch (SET_ERROR JNull) sys) = (s2, res)"
      by (cases "initializeCamera g c (dispatch (SET_ERROR JNull) sys)")
    with cam [of c] have "provider_inv s2" by simp
    then show ?thesis using fail ok
      by (cases res) (simp_all add: startStreaming_def Let_def Inr ic)
  qed
qed

lemma sendChatMessage_provider_inv:
  "provider_inv sys \<Longrightarrow> provider_inv (sendChatMessage st t sys)"
  by (auto simp add: sendChatMessage_def inv_defs split: option.splits)

lemma handleWebSocketMessage_provider_inv:
  assumes "provider_inv sys" and "socketRef sys \<noteq> None"
  shows "provider_inv (handleWebSocketMessage r msg sys)"
proof (cases msg)
  case (Malformed e)
  then show ?thesis using assms
    by (simp add: handleWebSocketMessage_def inv_defs)
next
  case (Message m)
  have lg: "\<And>l a. provider_inv (console_log l a sys)"
    using assms by (simp add: inv_defs)
  have er: "\<And>l a. provider_inv (console_error l a sys)"
    using assms by (simp add: inv_defs)
  have ch: "\<And>x. provider_inv (dispatch (ADD_CHAT_MESSAGE x) sys)"
    using assms by (simp add: inv_defs)
  have se: "\<And>x. provider_inv (dispatch (SET_ERROR x) sys)"
    using assms by (simp add: inv_defs)
  show ?thesis
    using assms lg er ch se
    by (simp add: handleWebSocketMessage_def Let_def Message handleRemoteOffer_provider_inv
        handleRemoteAnswer_provider_inv handleRemoteIceCandidate_provider_inv
        stopViewing_provider_inv split: sum.splits)
qed

lemma step_provider_inv:
  "provider_inv sys \<Longrightarrow> enabled e sys \<Longrightarrow> provider_inv (step e sys)"
proof (cases e)
  case (Video_ref v)
  assume "provider_inv sys"
  then show ?thesis by (simp add: Video_ref provider_inv_def)
next
  case (Auth_change u t)
  assume "provider_inv sys"
  then show ?thesis by (simp add: Auth_change provider_inv_def)
qed (simp_all add: startStreaming_provider_inv joinStream_provider_inv
      stopStreaming_provider_inv stopViewing_provider_inv sendChatMessage_provider_inv
      initializeCamera_provider_inv socket_connects_provider_inv
      socket_drops_provider_inv handleWebSocketMessage_provider_inv
      pc_onicecandidate_provider_inv pc_ontrack_provider_inv
      pc_onconnectionstatechange_provider_inv provider_inv_update_pc)

lemma initialSystem_provider_inv: "provider_inv (initialSystem u t)"
  by (simp add: provider_inv_def initialSystem_def initialState_def
      connection_state_names_def)

lemma reachable_provider_inv: "reachable sys \<Longrightarrow> provider_inv sys"
  by (induction rule: reachable.induct)
     (simp_all add: initialSystem_provider_inv step_provider_inv)

lemma reachable_connected_has_socket:
  "reachable sys \<Longrightarrow> isConnected (store sys) \<Longrightarrow> socketRef sys \<noteq> None"
  by (drule reachable_provider_inv) (simp add: provider_inv_def)

section \<open>The scenarios, evaluated\<close>

lemmas eval_defs = joinStream_def connectWebSocket_def Let_def dispatch_def
  socket_disconnect_def initialSystem_def initialState_def socket_on_connect_def
  socket_connects_def console_log_def console_error_def update_pc_def emit_def

lemma viewer_joined_eval:
  "viewer_joined =
     \<lparr> store = initialState\<lparr>isViewing := True, connectionState := ''connecting'',
                  isConnected := True, currentStreamId := Some ''s1''\<rparr>,
       socketRef = Some open_socket,
       peerConnectionsRef = [],
       peerConnections = [],
       localVideoRef = None,
       stoppedTracks = {},
       console = [Log ''WebSocket connected'' []],
       user = None,
       token = None \<rparr>"
  by (simp add: viewer_joined_def eval_defs open_socket_def)

lemma reachable_viewer_joined: "reachable viewer_joined"
  unfolding viewer_joined_def
  by (rule reachable_step [OF reachable_step [OF reachable_init]]) (simp_all add: eval_defs)

lemma not_inherited_P: "registry_get [] ''P'' = None" "registry_get [(''P'', 0)] ''Q'' = None"
  "registry_get [(''P'', 0)] ''P'' = Some (Link 0)"
  "registry_get [] ''constructor'' = Some Inherited"
  "registry_get [(''P'', 0)] ''toString'' = Some Inherited"
  by (simp_all add: registry_get_def object_prototype_keys_def)

lemma offer_eval:
  assumes "peerConnectionsRef sys = []" "peerConnections sys = []" "socketRef sys = Some s"
  shows "handleWebSocketMessage negotiation_ok (Message offer_from_P) sys =
     sys\<lparr>socketRef := Some (s\<lparr>emitted := emitted s @ [answer_with 0 None]\<rparr>),
         peerConnectionsRef := [(''P'', 0)],
         peerConnections := [linked_connection]\<rparr>"
  using assms
  by (simp add: handleWebSocketMessage_def handleRemoteOffer_def createPeerConnection_def
      offer_from_P_def negotiation_ok_def prop_key_def not_inherited_P
      new_peer_connection_def update_pc_def emit_def Let_def initialState_def
      linked_connection_def answer_with_def)

lemma viewer_linked_eval:
  "viewer_linked =
     viewer_joined\<lparr>socketRef := Some (open_socket\<lparr>emitted := [answer_with 0 None]\<rparr>),
                   peerConnectionsRef := [(''P'', 0)],
                   peerConnections := [linked_connection]\<rparr>"
proof -
  have "handleWebSocketMessage negotiation_ok (Message offer_from_P) viewer_joined =
     viewer_joined\<lparr>socketRef := Some (open_socket\<lparr>emitted := emitted open_socket @ [answer_with 0 None]\<rparr>),
         peerConnectionsRef := [(''P'', 0)],
         peerConnections := [linked_connection]\<rparr>"
    by (rule offer_eval) (simp_all add: viewer_joined_eval)
  then show ?thesis by (simp add: viewer_linked_def open_socket_def)
qed

lemma reachable_viewer_linked: "reachable viewer_linked"
  unfolding viewer_linked_def
  by (rule reachable_step [OF reachable_viewer_joined]) (simp add: viewer_joined_eval)

lemma viewer_watching_eval:
  "viewer_watching =
     viewer_linked
       \<lparr>store := (store viewer_joined)\<lparr>remoteStreams := [''P'' \<mapsto> Some remote_media]\<rparr>,
        console := [Log ''WebSocket connected'' [],
                    Log ''Received remote track:'' [JString (ascii ''video'')]]\<rparr>"
  by (simp add: viewer_watching_def viewer_linked_eval viewer_joined_eval pc_ontrack_def
      Let_def dispatch_def console_log_def linked_connection_def prop_key_def initialState_def)

lemma reachable_viewer_watching: "reachable viewer_watching"
  unfolding viewer_watching_def
  by (rule reachable_step [OF reachable_viewer_linked])
     (simp add: viewer_linked_eval viewer_joined_eval linked_connection_def)

lemma streamer_live_eval:
  "streamer_live =
     \<lparr> store = initialState\<lparr>localStream := Some camera_a, isStreaming := True,
                  connectionState := ''connecting'', isConnected := True,
                  currentStreamId := Some ''s1''\<rparr>,
       socketRef = Some open_socket,
       peerConnectionsRef = [],
       peerConnections = [],
       localVideoRef = None,
       stoppedTracks = {},
       console = [Log ''WebSocket connected'' []],
       user = None,
       token = None \<rparr>"
  by (simp add: streamer_live_def startStreaming_def initializeCamera_def eval_defs
      open_socket_def)

lemma reachable_streamer_live: "reachable streamer_live"
  unfolding streamer_live_def
  by (rule reachable_step [OF reachable_step [OF reachable_init]])
     (simp_all add: startStreaming_def initializeCamera_def eval_defs)

lemma reachable_link_failed:
  "reachable (step (Pc_connectionstatechange 0 Failed) viewer_linked)"
  by (rule reachable_step [OF reachable_viewer_linked])
     (simp add: viewer_linked_eval viewer_joined_eval linked_connection_def)

lemma trim_hello: "trim (ascii ''  hello  '') = ascii ''hello''"
  by (simp add: trim_def is_white_space_def ascii_def white_space_code_units_def)

section \<open>The connection state\<close>

text \<open>
  C7, as stated: in every reachable state \<open>connectionState\<close> is one of
  \<^verbatim>\<open>disconnected\<close>, \<^verbatim>\<open>connecting\<close>, \<^verbatim>\<open>connected\<close>, \<^verbatim>\<open>streaming\<close>, \<^verbatim>\<open>viewing\<close>. This fails:
  \<^verbatim>\<open>onconnectionstatechange\<close> stores the transport's own state name. After a viewer has
  answered an offer and the transport reports \<^verbatim>\<open>failed\<close>, the field holds \<^verbatim>\<open>failed\<close>.
\<close>

theorem connectionState_reaches_failed:
  "reachable (step (Pc_connectionstatechange 0 Failed) viewer_linked) \<and>
   connectionState (store (step (Pc_connectionstatechange 0 Failed) viewer_linked)) =
     ''failed'' \<and>
   connectionState (store (step (Pc_connectionstatechange 0 Failed) viewer_linked)) \<notin>
     {''disconnected'', ''connecting'', ''connected'', ''streaming'', ''viewing''}"
proof -
  have "connectionState (store (step (Pc_connectionstatechange 0 Failed) viewer_linked)) =
          ''failed''"
    by (simp add: viewer_linked_eval viewer_joined_eval pc_onconnectionstatechange_def
        cleanupPeerConnection_def Let_def dispatch_def console_log_def update_pc_def
        linked_connection_def prop_key_def pc_close_def not_inherited_P)
  with reachable_link_failed show ?thesis by simp
qed

text \<open>
  C7, amended: in every reachable state \<open>connectionState\<close> is \<^verbatim>\<open>disconnected\<close> or
  \<^verbatim>\<open>connecting\<close> (set by the session API) or the name of the state a peer connection
  last reported: \<^verbatim>\<open>new\<close>, \<^verbatim>\<open>connecting\<close>, \<^verbatim>\<open>connected\<close>, \<^verbatim>\<open>disconnected\<close>, \<^verbatim>\<open>failed\<close>,
  \<^verbatim>\<open>closed\<close>. It never holds \<^verbatim>\<open>streaming\<close> or \<^verbatim>\<open>viewing\<close>.
\<close>

theorem connectionState_values:
  "reachable sys \<Longrightarrow>
     connectionState (store sys) \<in>
       {''disconnected'', ''connecting'', ''new'', ''connected'', ''failed'', ''closed''}"
  by (drule reachable_provider_inv) (simp add: provider_inv_def connection_state_names_def)

theorem connectionState_values_witness:
  "reachable (step (Pc_connectionstatechange 0 Failed) viewer_linked) \<and>
   connectionState (store (step (Pc_connectionstatechange 0 Failed) viewer_linked)) \<in>
       {''disconnected'', ''connecting'', ''new'', ''connected'', ''failed'', ''closed''}"
  using connectionState_values [OF reachable_link_failed] reachable_link_failed by simp

section \<open>Sending a chat message\<close>

lemma trim_decomposition:
  "\<exists>l r. text = l @ trim text @ r \<and> list_all is_white_space l \<and> list_all is_white_space r"
proof -
  define l where "l = takeWhile is_white_space text"
  define m where "m = dropWhile is_white_space text"
  define r where "r = rev (takeWhile is_white_space (rev m))"
  have "rev m = takeWhile is_white_space (rev m) @ dropWhile is_white_space (rev m)" by simp
  then have "m = rev (dropWhile is_white_space (rev m)) @ r"
    by (metis r_def rev_append rev_rev_ident)
  then have "text = l @ trim text @ r"
    by (metis l_def m_def takeWhile_dropWhile_id trim_def)
  moreover have "list_all is_white_space l"
    by (simp add: l_def list_all_iff) (meson set_takeWhileD)
  moreover have "list_all is_white_space r"
    by (simp add: r_def list_all_iff) (meson set_takeWhileD)
  ultimately show ?thesis by blast
qed

lemma trim_edges:
  "trim text = [] \<or>
   (\<not> is_white_space (hd (trim text)) \<and> \<not> is_white_space (last (trim text)))"
proof (cases "trim text = []")
  case True
  then show ?thesis by simp
next
  case False
  define m where "m = dropWhile is_white_space text"
  define k where "k = dropWhile is_white_space (rev m)"
  have t: "trim text = rev k" by (simp add: trim_def k_def m_def)
  with False have kne: "k \<noteq> []" by simp
  then have hk: "\<not> is_white_space (hd k)" unfolding k_def by (metis hd_dropWhile)
  have "last (trim text) = hd k" using kne by (simp add: t last_rev)
  moreover have "hd (trim text) = hd m"
  proof -
    have "rev m = takeWhile is_white_space (rev m) @ k" by (simp add: k_def)
    then have "m = rev k @ rev (takeWhile is_white_space (rev m))"
      by (metis rev_append rev_rev_ident)
    with kne show ?thesis by (metis t hd_append2 rev_is_Nil_conv)
  qed
  moreover have "m \<noteq> []" using kne by (auto simp: k_def)
  then have "\<not> is_white_space (hd m)" unfolding m_def by (metis hd_dropWhile)
  ultimately show ?thesis using hk by simp
qed

lemma is_white_space_table:
  "is_white_space c \<longleftrightarrow>
     c \<in> {0x0009, 0x000A, 0x000B, 0x000C, 0x000D, 0x0020, 0x00A0, 0x1680,
          0x2000, 0x2001, 0x2002, 0x2003, 0x2004, 0x2005, 0x2006, 0x2007, 0x2008, 0x2009,
          0x200A, 0x2028, 0x2029, 0x202F, 0x205F, 0x3000, 0xFEFF}"
  by (simp add: is_white_space_def white_space_code_units_def)

text \<open>
  C8. For every text, \<^verbatim>\<open>sendChatMessage\<close> changes nothing when the state it reads is not
  connected. When it is connected, the call appends exactly one envelope to what the
  socket has emitted: type \<^verbatim>\<open>chat_message\<close>, content the trimmed text, tagged with the
  \<open>currentStreamId\<close> of the state it reads; the session state, hence the chat log, is
  unchanged. In a reachable provider a connected store always has a socket.

  The trimmed text is the text without its leading and trailing white space: the text is
  a run of white space, then the trimmed text, then a run of white space, and the trimmed
  text neither starts nor ends with white space. White space is exactly the listed code
  units.
\<close>

theorem sendChatMessage_transmits_trimmed:
  "(\<not> isConnected st \<longrightarrow> sendChatMessage st text sys = sys) \<and>
   (isConnected st \<longrightarrow> socketRef sys = Some s \<longrightarrow>
      sendChatMessage st text sys =
        sys\<lparr>socketRef :=
              Some (s\<lparr>emitted := emitted s @
                [\<lparr> type = ''chat_message'',
                   data = JObject [(''content'', JString (trim text))],
                   sender_id = NoId, target_id = NoId,
                   stream_id = currentStreamId st \<rparr>]\<rparr>)\<rparr> \<and>
      store (sendChatMessage st text sys) = store sys) \<and>
   (reachable sys \<longrightarrow> isConnected (store sys) \<longrightarrow> socketRef sys \<noteq> None) \<and>
   (\<exists>l r. text = l @ trim text @ r \<and>
           list_all is_white_space l \<and> list_all is_white_space r) \<and>
   (trim text = [] \<or>
      (\<not> is_white_space (hd (trim text)) \<and> \<not> is_white_space (last (trim text)))) \<and>
   (is_white_space c \<longleftrightarrow>
      c \<in> {0x0009, 0x000A, 0x000B, 0x000C, 0x000D, 0x0020, 0x00A0, 0x1680,
           0x2000, 0x2001, 0x2002, 0x2003, 0x2004, 0x2005, 0x2006, 0x2007, 0x2008, 0x2009,
           0x200A, 0x2028, 0x2029, 0x202F, 0x205F, 0x3000, 0xFEFF})"
proof -
  have 1: "\<not> isConnected st \<longrightarrow> sendChatMessage st text sys = sys"
    by (simp add: sendChatMessage_def split: option.splits)
  have 2: "isConnected st \<longrightarrow> socketRef sys = Some s \<longrightarrow>
      sendChatMessage st text sys =
        sys\<lparr>socketRef :=
              Some (s\<lparr>emitted := emitted s @
                [\<lparr> type = ''chat_message'',
                   data = JObject [(''content'', JString (trim text))],
                   sender_id = NoId, target_id = NoId,
                   stream_id = currentStreamId st \<rparr>]\<rparr>)\<rparr> \<and>
      store (sendChatMessage st text sys) = store sys"
    by (simp add: sendChatMessage_def emit_def)
  have 3: "reachable sys \<longrightarrow> isConnected (store sys) \<longrightarrow> socketRef sys \<noteq> None"
    using reachable_connected_has_socket by blast
  show ?thesis
    by (rule conjI [OF 1 conjI [OF 2 conjI [OF 3 conjI [OF trim_decomposition
          conjI [OF trim_edges is_white_space_table]]]]])
qed

theorem sendChatMessage_transmits_trimmed_witness:
  "reachable viewer_joined \<and>
   isConnected (store viewer_joined) \<and>
   socketRef viewer_joined = Some open_socket \<and>
   socketRef (sendChatMessage (store viewer_joined) (ascii ''  hello  '') viewer_joined) =
     Some (open_socket
            \<lparr>emitted := [\<lparr> type = ''chat_message'',
                           data = JObject [(''content'', JString (ascii ''hello''))],
                           sender_id = NoId, target_id = NoId,
                           stream_id = Some ''s1'' \<rparr>]\<rparr>) \<and>
   chatMessages (store (sendChatMessage (store viewer_joined) (ascii ''  hello  '')
                          viewer_joined)) = [] \<and>
   \<not> isConnected initialState \<and>
   sendChatMessage initialState (ascii ''  hello  '') viewer_joined = viewer_joined"
proof -
  have v: "socketRef viewer_joined = Some open_socket"
    and c: "isConnected (store viewer_joined)"
    and ch: "chatMessages (store viewer_joined) = []"
    and sid: "currentStreamId (store viewer_joined) = Some ''s1''"
    by (simp_all add: viewer_joined_eval initialState_def)
  have n: "\<not> isConnected initialState" by (simp add: initialState_def)
  have e: "emitted open_socket = []" by (simp add: open_socket_def)
  show ?thesis
    using sendChatMessage_transmits_trimmed
            [of "store viewer_joined" "ascii ''  hello  ''" viewer_joined open_socket]
          sendChatMessage_transmits_trimmed [of initialState "ascii ''  hello  ''" viewer_joined]
          reachable_viewer_joined v c ch sid n e
    by (simp add: trim_hello)
qed

section \<open>Answers and candidates without a PeerLink\<close>

lemma handleRemoteAnswer_frame:
  "peerConnectionsRef (handleRemoteAnswer r m sys) = peerConnectionsRef sys \<and>
   length (peerConnections (handleRemoteAnswer r m sys)) = length (peerConnections sys) \<and>
   store (handleRemoteAnswer r m sys) = store sys \<and>
   socketRef (handleRemoteAnswer r m sys) = socketRef sys"
  by (simp add: handleRemoteAnswer_def console_error_def update_pc_def Let_def
      split: option.splits registry_value.splits)

lemma handleRemoteIceCandidate_frame:
  "peerConnectionsRef (handleRemoteIceCandidate r m sys) = peerConnectionsRef sys \<and>
   length (peerConnections (handleRemoteIceCandidate r m sys)) = length (peerConnections sys) \<and>
   store (handleRemoteIceCandidate r m sys) = store sys \<and>
   socketRef (handleRemoteIceCandidate r m sys) = socketRef sys"
  by (simp add: handleRemoteIceCandidate_def console_error_def update_pc_def Let_def
      split: option.splits registry_value.splits)

lemma answer_and_candidate_frame:
  assumes "type m = ''answer'' \<or> type m = ''ice_candidate''"
  shows "peerConnectionsRef (handleWebSocketMessage r (Message m) sys) = peerConnectionsRef sys \<and>
     length (peerConnections (handleWebSocketMessage r (Message m) sys)) =
       length (peerConnections sys) \<and>
     store (handleWebSocketMessage r (Message m) sys) = store sys \<and>
     socketRef (handleWebSocketMessage r (Message m) sys) = socketRef sys"
proof -
  from assms have "handleWebSocketMessage r (Message m) sys = handleRemoteAnswer r m sys \<or>
      handleWebSocketMessage r (Message m) sys = handleRemoteIceCandidate r m sys"
    by (auto simp: handleWebSocketMessage_def)
  then show ?thesis
    using handleRemoteAnswer_frame [of r m sys] handleRemoteIceCandidate_frame [of r m sys]
    by auto
qed

lemma absent_sender_is_ignored:
  assumes "type m = ''answer'' \<or> type m = ''ice_candidate''"
    and "registry_get (peerConnectionsRef sys) (prop_key (sender_id m)) = None"
  shows "handleWebSocketMessage r (Message m) sys = sys"
  using assms
  by (auto simp: handleWebSocketMessage_def handleRemoteAnswer_def handleRemoteIceCandidate_def)

text \<open>
  C9, evaluated at a viewer whose only PeerLink is for \<^verbatim>\<open>P\<close>. An \<^verbatim>\<open>answer\<close> or an
  \<^verbatim>\<open>ice_candidate\<close> from \<^verbatim>\<open>toString\<close>, a participant with no PeerLink, is not silently
  ignored: the registry read finds the inherited property, the call on it throws, and the
  handler logs the \<^verbatim>\<open>TypeError\<close>. The same envelopes from \<^verbatim>\<open>Q\<close>, whose name is not
  inherited, leave the provider exactly as it was.
\<close>

theorem inherited_sender_is_logged:
  "reachable viewer_linked \<and>
   map_of (peerConnectionsRef viewer_linked) ''toString'' = None \<and>
   handleWebSocketMessage negotiation_ok
     (Message (answer_message\<lparr>sender_id := Id ''toString''\<rparr>)) viewer_linked =
     viewer_linked
       \<lparr>console := console viewer_linked @ [Error ''Error handling remote answer:'' TypeError]\<rparr> \<and>
   handleWebSocketMessage negotiation_ok
     (Message (answer_message\<lparr>type := ''ice_candidate'', sender_id := Id ''toString''\<rparr>))
     viewer_linked =
     viewer_linked
       \<lparr>console := console viewer_linked @
          [Error ''Error handling remote ICE candidate:'' TypeError]\<rparr> \<and>
   handleWebSocketMessage negotiation_ok
     (Message (answer_message\<lparr>sender_id := Id ''toString''\<rparr>)) viewer_linked \<noteq> viewer_linked \<and>
   map_of (peerConnectionsRef viewer_linked) ''Q'' = None \<and>
   handleWebSocketMessage negotiation_ok (Message answer_message) viewer_linked =
     viewer_linked \<and>
   handleWebSocketMessage negotiation_ok
     (Message (answer_message\<lparr>type := ''ice_candidate''\<rparr>)) viewer_linked = viewer_linked"
proof -
  have r: "peerConnectionsRef viewer_linked = [(''P'', 0)]"
    by (simp add: viewer_linked_eval)
  have 1: "handleWebSocketMessage negotiation_ok
     (Message (answer_message\<lparr>sender_id := Id ''toString''\<rparr>)) viewer_linked =
     viewer_linked
       \<lparr>console := console viewer_linked @ [Error ''Error handling remote answer:'' TypeError]\<rparr>"
    by (simp add: handleWebSocketMessage_def handleRemoteAnswer_def answer_message_def r
        prop_key_def not_inherited_P negotiation_ok_def console_error_def Let_def)
  have 2: "handleWebSocketMessage negotiation_ok
     (Message (answer_message\<lparr>type := ''ice_candidate'', sender_id := Id ''toString''\<rparr>))
     viewer_linked =
     viewer_linked
       \<lparr>console := console viewer_linked @
          [Error ''Error handling remote ICE candidate:'' TypeError]\<rparr>"
    by (simp add: handleWebSocketMessage_def handleRemoteIceCandidate_def answer_message_def r
        prop_key_def not_inherited_P negotiation_ok_def console_error_def Let_def)
  have 3: "handleWebSocketMessage negotiation_ok (Message answer_message) viewer_linked =
     viewer_linked"
    "handleWebSocketMessage negotiation_ok
     (Message (answer_message\<lparr>type := ''ice_candidate''\<rparr>)) viewer_linked = viewer_linked"
    by (simp_all add: handleWebSocketMessage_def handleRemoteAnswer_def
        handleRemoteIceCandidate_def answer_message_def r prop_key_def not_inherited_P Let_def)
  have 4: "viewer_linked
       \<lparr>console := console viewer_linked @ [Error ''Error handling remote answer:'' TypeError]\<rparr>
       \<noteq> viewer_linked"
  proof
    assume "viewer_linked
       \<lparr>console := console viewer_linked @ [Error ''Error handling remote answer:'' TypeError]\<rparr>
       = viewer_linked"
    then have "console (viewer_linked
       \<lparr>console := console viewer_linked @ [Error ''Error handling remote answer:'' TypeError]\<rparr>)
       = console viewer_linked" by simp
    then show False by simp
  qed
  show ?thesis
    using reachable_viewer_linked 4 by (simp add: 1 2 3 r)
qed

section \<open>Replacing the local stream\<close>

text \<open>
  C4, as stated: when a new capture stream is acquired and stored while a previous one
  exists, the previous stream's tracks are stopped first. This fails: after a second
  \<^verbatim>\<open>initializeCamera\<close> the state holds the second stream, and no track of the first has
  been stopped.
\<close>

theorem second_capture_leaves_tracks_live:
  "localStream (store first_capture) = Some camera_a \<and>
   getTracks camera_a = [''a-audio'', ''a-video''] \<and>
   localStream (store (fst (initializeCamera (\<lambda>_. Inr camera_b) JUndefined first_capture))) =
     Some camera_b \<and>
   ''a-audio'' \<notin>
     stoppedTracks (fst (initializeCamera (\<lambda>_. Inr camera_b) JUndefined first_capture)) \<and>
   ''a-video'' \<notin>
     stoppedTracks (fst (initializeCamera (\<lambda>_. Inr camera_b) JUndefined first_capture))"
  by (simp add: first_capture_def initializeCamera_def Let_def dispatch_def initialSystem_def
      initialState_def camera_a_def)

text \<open>
  C4, amended: the session state holds at most one \<open>localStream\<close> handle. When
  \<^verbatim>\<open>initializeCamera\<close> acquires a stream it stores that stream as the handle, replacing
  any previous one, and stops no track: the set of stopped tracks is unchanged.
\<close>

theorem initializeCamera_replaces_handle:
  "getUserMedia (if constraints = JUndefined
                 then JObject [(''video'', JBool True), (''audio'', JBool True)]
                 else constraints) = Inr new_stream \<Longrightarrow>
     localStream (store (fst (initializeCamera getUserMedia constraints sys))) = Some new_stream \<and>
     stoppedTracks (fst (initializeCamera getUserMedia constraints sys)) = stoppedTracks sys \<and>
     snd (initializeCamera getUserMedia constraints sys) = Inr new_stream"
  by (simp add: initializeCamera_def Let_def dispatch_def split: option.splits)

theorem initializeCamera_replaces_handle_witness:
  "localStream (store first_capture) = Some camera_a \<and>
   localStream (store (fst (initializeCamera (\<lambda>_. Inr camera_b) JUndefined first_capture))) =
     Some camera_b \<and>
   stoppedTracks (fst (initializeCamera (\<lambda>_. Inr camera_b) JUndefined first_capture)) = {} \<and>
   snd (initializeCamera (\<lambda>_. Inr camera_b) JUndefined first_capture) = Inr camera_b"
proof -
  have "stoppedTracks first_capture = {}" "localStream (store first_capture) = Some camera_a"
    by (simp_all add: first_capture_def initializeCamera_def Let_def dispatch_def
        initialSystem_def initialState_def)
  then show ?thesis
    using initializeCamera_replaces_handle
            [of "\<lambda>_. Inr camera_b" JUndefined camera_b first_capture]
    by simp
qed

section \<open>Stopping a viewer\<close>

text \<open>
  C3, evaluated at a viewer that holds a PeerLink and a remote stream for participant
  \<^verbatim>\<open>P\<close>. After \<^verbatim>\<open>stopViewing\<close> the registry is empty, the peer connection is closed and
  the socket is disconnected, yet the state still holds the remote stream entry of
  \<^verbatim>\<open>P\<close> and is not the reset state. An inbound \<^verbatim>\<open>stream_ended\<close> envelope does the same.
\<close>

theorem stopViewing_leaves_remote_stream:
  "reachable viewer_watching \<and>
   map_of (peerConnectionsRef viewer_watching) ''P'' = Some 0 \<and>
   remoteStreams (store viewer_watching) ''P'' = Some (Some remote_media) \<and>
   peerConnectionsRef (stopViewing viewer_watching) = [] \<and>
   map pc_connectionState (peerConnections (stopViewing viewer_watching)) = [Closed] \<and>
   map_option disconnected (socketRef (stopViewing viewer_watching)) = Some True \<and>
   remoteStreams (store (stopViewing viewer_watching)) ''P'' = Some (Some remote_media) \<and>
   store (stopViewing viewer_watching) \<noteq> webrtcReducer (store viewer_watching) RESET_STATE \<and>
   handleWebSocketMessage negotiation_ok (Message stream_ended_message) viewer_watching =
     stopViewing (console_log ''Stream ended'' [] viewer_watching) \<and>
   remoteStreams (store (stopViewing (console_log ''Stream ended'' [] viewer_watching))) ''P'' =
     Some (Some remote_media)"
proof -
  have "store (stopViewing viewer_watching) \<noteq> webrtcReducer (store viewer_watching) RESET_STATE"
  proof
    assume "store (stopViewing viewer_watching) =
            webrtcReducer (store viewer_watching) RESET_STATE"
    then have "currentStreamId (store (stopViewing viewer_watching)) =
               currentStreamId (webrtcReducer (store viewer_watching) RESET_STATE)"
      by simp
    then show False
      by (simp add: stopViewing_def Let_def socket_defs
          close_peer_connections_frame viewer_watching_eval viewer_linked_eval
          viewer_joined_eval initialState_def open_socket_def)
  qed
  then show ?thesis
    using reachable_viewer_watching
    by (simp add: stopViewing_def Let_def socket_defs
        close_peer_connections_def update_pc_def pc_close_def handleWebSocketMessage_def
        viewer_watching_eval viewer_linked_eval viewer_joined_eval linked_connection_def
        open_socket_def stream_ended_message_def)
qed

section \<open>Answering an offer\<close>

text \<open>
  C1, evaluated at a streamer whose state holds camera \<^verbatim>\<open>a\<close> (two tracks) and stream
  \<^verbatim>\<open>s1\<close>, with every browser call succeeding. For an offer from \<^verbatim>\<open>P\<close> the router
  creates the PeerLink and sends exactly one answer addressed to \<^verbatim>\<open>P\<close>, but it attaches no
  local track and tags the answer with no stream: the handler it calls reads the state of
  the first render. The same handler given the state of the store attaches both tracks
  before the answer is made and tags it \<^verbatim>\<open>s1\<close>. For an offer from \<^verbatim>\<open>constructor\<close> the
  registry read finds the inherited property: no PeerLink is created and no answer is
  sent, only the \<^verbatim>\<open>TypeError\<close> is logged.
\<close>

theorem offer_handler_reads_first_render_state:
  "reachable streamer_live \<and>
   localStream (store streamer_live) = Some camera_a \<and>
   getTracks camera_a = [''a-audio'', ''a-video''] \<and>
   currentStreamId (store streamer_live) = Some ''s1'' \<and>
   socketRef streamer_live = Some open_socket \<and>
   emitted open_socket = [] \<and>
   peerConnectionsRef
     (handleWebSocketMessage negotiation_ok (Message offer_from_P) streamer_live) =
     [(''P'', 0)] \<and>
   map senders
     (peerConnections
        (handleWebSocketMessage negotiation_ok (Message offer_from_P) streamer_live)) = [[]] \<and>
   map_option emitted
     (socketRef (handleWebSocketMessage negotiation_ok (Message offer_from_P) streamer_live)) =
     Some [\<lparr> type = ''answer'',
             data = JObject [(''type'', JString (ascii ''answer'')), (''media'', JNumber 0)],
             sender_id = NoId, target_id = Id ''P'', stream_id = None \<rparr>] \<and>
   map_option emitted
     (socketRef (handleRemoteOffer (store streamer_live) negotiation_ok offer_from_P
                   streamer_live)) =
     Some [\<lparr> type = ''answer'',
             data = JObject [(''type'', JString (ascii ''answer'')), (''media'', JNumber 2)],
             sender_id = NoId, target_id = Id ''P'', stream_id = Some ''s1'' \<rparr>] \<and>
   handleWebSocketMessage negotiation_ok
     (Message (offer_from_P\<lparr>sender_id := Id ''constructor''\<rparr>)) streamer_live =
     streamer_live
       \<lparr>console := console streamer_live @ [Error ''Error handling remote offer:'' TypeError]\<rparr>"
proof -
  have 1: "handleWebSocketMessage negotiation_ok (Message offer_from_P) streamer_live =
     streamer_live\<lparr>socketRef := Some (open_socket\<lparr>emitted := emitted open_socket @ [answer_with 0 None]\<rparr>),
         peerConnectionsRef := [(''P'', 0)],
         peerConnections := [linked_connection]\<rparr>"
    by (rule offer_eval) (simp_all add: streamer_live_eval)
  have 2: "map_option emitted
     (socketRef (handleRemoteOffer (store streamer_live) negotiation_ok offer_from_P
                   streamer_live)) = Some [answer_with 2 (Some ''s1'')]"
    by (simp add: streamer_live_eval handleRemoteOffer_def createPeerConnection_def
      offer_from_P_def negotiation_ok_def prop_key_def not_inherited_P camera_a_def
      new_peer_connection_def update_pc_def emit_def Let_def initialState_def
      answer_with_def open_socket_def)
  have 3: "handleWebSocketMessage negotiation_ok
     (Message (offer_from_P\<lparr>sender_id := Id ''constructor''\<rparr>)) streamer_live =
     streamer_live
       \<lparr>console := console streamer_live @ [Error ''Error handling remote offer:'' TypeError]\<rparr>"
    by (simp add: streamer_live_eval handleWebSocketMessage_def handleRemoteOffer_def
      createPeerConnection_def offer_from_P_def negotiation_ok_def prop_key_def not_inherited_P
      console_error_def Let_def)
  have 4: "localStream (store streamer_live) = Some camera_a"
    "currentStreamId (store streamer_live) = Some ''s1''"
    "socketRef streamer_live = Some open_socket"
    by (simp_all add: streamer_live_eval)
  show ?thesis
    using reachable_streamer_live
    by (simp add: 1 2 3 4 answer_with_def linked_connection_def open_socket_def camera_a_def)
qed

end
